theory Spec2Isabelle
  imports Complex_Main "HOL-Library.Char_ord" "HOL-Library.List_Lexorder"
begin

section \<open>Sales dashboard (AzharSaeeddata.py): data model\<close>

text \<open>
  The script is a single Streamlit page: it decodes an uploaded XLSB workbook into a
  pandas frame, cleans it, filters it by the sidebar widgets and renders KPIs. The
  embedding follows the script line by line. pandas, pyxlsb and Streamlit are libraries,
  not code of the repository; the operations the script calls are modelled here with the
  behaviour the script relies on.

  A cell is what \<^verbatim>\<open>item.v\<close> of pyxlsb or a derived pandas column holds:
  \<^item> \<open>CNone\<close>: a blank cell; it also stands for NaN and NaT, which pandas treats
    alike in \<^verbatim>\<open>dropna\<close>;
  \<^item> \<open>CNum\<close>: a number. Amounts and day offsets are exact rationals: floating-point
    rounding, infinities and overflow are outside the model. A Boolean cell counts as
    the number 1 or 0, which it equals, hashes as and orders as in Python;
  \<^item> \<open>CStr\<close>: text;
  \<^item> \<open>CDate\<close>: a timestamp, in days since 1970-01-01 (with a fraction for the time of
    day); it only arises in the derived column \<^verbatim>\<open>Date\<close>.
\<close>

datatype cell = CNone | CNum rat | CStr string | CDate rat

text \<open>
  A frame is its column labels and its rows. The row index of pandas is left out; the
  order of the rows is the order of the list.
\<close>

record frame =
  columns :: "cell list"
  rows :: "cell list list"

text \<open>
  The exceptions of Python that the script can meet. \<open>DuplicateLabel\<close> stands for the
  error pandas raises at the first use of \<^verbatim>\<open>df[label]\<close> when the label occurs more
  than once in the header (the selection is then a sub-frame, on which
  \<^verbatim>\<open>to_numeric\<close>, \<^verbatim>\<open>.unique\<close>, \<^verbatim>\<open>.dt\<close> and \<^verbatim>\<open>Categorical\<close> fail).
  \<open>External\<close> is an exception of pyxlsb with its message.
\<close>

datatype exn =
  KeyError | IndexError | TypeError | ValueError | ZeroDivisionError
  | DuplicateLabel | External string

fun exn_text :: "exn \<Rightarrow> string" where
  "exn_text KeyError = ''KeyError''"
| "exn_text IndexError = ''single positional indexer is out-of-bounds''"
| "exn_text TypeError = ''TypeError''"
| "exn_text ValueError = ''ValueError''"
| "exn_text ZeroDivisionError = ''division by zero''"
| "exn_text DuplicateLabel = ''duplicate label''"
| "exn_text (External msg) = msg"

text \<open>Sequencing of steps that may raise: the first exception ends the computation.\<close>

definition and_then :: "exn + 'a \<Rightarrow> ('a \<Rightarrow> exn + 'b) \<Rightarrow> exn + 'b" where
  "and_then m f = (case m of Inl e \<Rightarrow> Inl e | Inr x \<Rightarrow> f x)"

text \<open>
  What the page shows. Only the calls the properties below speak about are recorded:
  \<^verbatim>\<open>st.warning\<close>, \<^verbatim>\<open>st.error\<close>, \<^verbatim>\<open>st.title\<close>, the overview
  \<^verbatim>\<open>st.subheader\<close> and the three \<^verbatim>\<open>metric\<close> calls (with the value before
  formatting). Charts, tables and the sidebar headers are not recorded.
\<close>

datatype event =
  StWarning string | StError string | StTitle string | StSubheader string
  | StMetric string rat

section \<open>XLSB loader (lines 13-27)\<close>

text \<open>
  pyxlsb is a parameter of the model. An uploaded file is the outcome of
  \<^verbatim>\<open>open_workbook(file)\<close>: an exception, or a workbook, which maps a sheet name to the
  outcome of \<^verbatim>\<open>get_sheet(name)\<close>: an exception, or a sheet, which is the outcome of
  iterating \<^verbatim>\<open>sheet.rows()\<close>: an exception, or the rows read, each the list of its
  \<^verbatim>\<open>item.v\<close>.
\<close>

type_synonym sheet = "exn + cell list list"
type_synonym workbook = "string \<Rightarrow> exn + sheet"
type_synonym xlsb_file = "exn + workbook"

definition read_rows :: "xlsb_file \<Rightarrow> exn + cell list list" where
  "read_rows file =
     and_then file (\<lambda>wb.
     and_then (wb ''DATA_BK'') (\<lambda>sheet. sheet))"

text \<open>
  \<^verbatim>\<open>pd.DataFrame(rows)\<close>: the columns are labelled 0, 1, ... and a short row is filled
  up with missing values.
\<close>

definition width :: "cell list list \<Rightarrow> nat" where
  "width rs = foldr (\<lambda>r n. max (length r) n) rs 0"

definition pad :: "nat \<Rightarrow> cell list \<Rightarrow> cell list" where
  "pad n r = r @ replicate (n - length r) CNone"

definition DataFrame :: "cell list list \<Rightarrow> frame" where
  "DataFrame rs =
     \<lparr>columns = map (\<lambda>i. CNum (of_nat i)) [0..<width rs],
      rows = map (pad (width rs)) rs\<rparr>"

definition empty_frame :: frame where
  "empty_frame = \<lparr>columns = [], rows = []\<rparr>"

text \<open>
  The body of the \<^verbatim>\<open>try\<close> block. \<^verbatim>\<open>df.iloc[0]\<close> raises IndexError on a frame
  with no row; otherwise the first row becomes the header and is removed.
\<close>

definition load_frame :: "xlsb_file \<Rightarrow> exn + frame" where
  "load_frame file =
     and_then (read_rows file) (\<lambda>rs.
       case rows (DataFrame rs) of
         [] \<Rightarrow> Inl IndexError
       | h # t \<Rightarrow> Inr \<lparr>columns = h, rows = t\<rparr>)"

text \<open>
  \<^verbatim>\<open>load_xlsb\<close>: \<^verbatim>\<open>except Exception as e\<close> turns every exception of the body into
  an error message and the empty frame. The result is the messages shown and the frame
  returned.
\<close>

definition load_xlsb :: "xlsb_file \<Rightarrow> event list \<times> frame" where
  "load_xlsb file =
     (case load_frame file of
        Inr df \<Rightarrow> ([], df)
      | Inl e \<Rightarrow> ([StError (''Error loading XLSB file: '' @ exn_text e)], empty_frame))"

text \<open>\<^verbatim>\<open>df.empty\<close>: some axis has length 0.\<close>

definition df_empty :: "frame \<Rightarrow> bool" where
  "df_empty df = (rows df = [] \<or> columns df = [])"

section \<open>Column access\<close>

text \<open>
  \<^verbatim>\<open>df[name]\<close> raises KeyError when no column has the label. Rows are read through
  \<open>cell_at\<close>, which gives a missing value beyond the end of a row, as the fill of
  \<^verbatim>\<open>pd.DataFrame\<close> does.
\<close>

definition positions :: "cell \<Rightarrow> cell list \<Rightarrow> nat list" where
  "positions c cs = filter (\<lambda>i. cs ! i = c) [0..<length cs]"

definition col_index :: "frame \<Rightarrow> string \<Rightarrow> exn + nat" where
  "col_index df name =
     (case positions (CStr name) (columns df) of
        [] \<Rightarrow> Inl KeyError
      | [i] \<Rightarrow> Inr i
      | _ \<Rightarrow> Inl DuplicateLabel)"

definition cell_at :: "cell list \<Rightarrow> nat \<Rightarrow> cell" where
  "cell_at r i = (if i < length r then r ! i else CNone)"

definition get_col :: "frame \<Rightarrow> string \<Rightarrow> exn + cell list" where
  "get_col df name =
     and_then (col_index df name) (\<lambda>i. Inr (map (\<lambda>r. cell_at r i) (rows df)))"

text \<open>
  \<^verbatim>\<open>df[name] = values\<close>: a new label is appended as the last column; an existing one
  is overwritten in place (every column of that label).
\<close>

definition put :: "nat list \<Rightarrow> cell \<Rightarrow> cell list \<Rightarrow> cell list" where
  "put ps v r = foldr (\<lambda>i r'. r'[i := v]) ps r"

definition set_col :: "frame \<Rightarrow> string \<Rightarrow> cell list \<Rightarrow> frame" where
  "set_col df name vals =
     (let ps = positions (CStr name) (columns df); n = length (columns df) in
      if ps = [] then
        \<lparr>columns = columns df @ [CStr name],
         rows = map (\<lambda>(r, v). take n (pad n r) @ [v]) (zip (rows df) vals)\<rparr>
      else
        \<lparr>columns = columns df,
         rows = map (\<lambda>(r, v). put ps v (take n (pad n r))) (zip (rows df) vals)\<rparr>)"

section \<open>Data cleaning and date parsing (lines 51-73)\<close>

text \<open>
  \<^verbatim>\<open>pd.to_numeric(..., errors="coerce")\<close> on one cell. How pandas reads a number out
  of a text cell is a parameter, \<open>parse\<close>: \<open>None\<close> when the text is no number.
\<close>

fun to_numeric :: "(string \<Rightarrow> rat option) \<Rightarrow> cell \<Rightarrow> cell" where
  "to_numeric parse (CNum x) = CNum x"
| "to_numeric parse (CStr s) = (case parse s of Some x \<Rightarrow> CNum x | None \<Rightarrow> CNone)"
| "to_numeric parse CNone = CNone"
| "to_numeric parse (CDate t) = CNone"

text \<open>
  \<^verbatim>\<open>pd.to_datetime(x, origin="1899-12-30", unit="D", errors="coerce")\<close> on one cell.
  pandas moves the origin to 1970-01-01, which is day 25569 after 1899-12-30. Which
  offsets it can turn into a timestamp depends on the version installed, and the script
  pins none (pandas 2 counts nanoseconds in a signed 64-bit integer, a later version
  accepts more), so the test is a parameter, \<open>fits\<close>, of the day number counted from
  1970-01-01. An offset that does not fit becomes NaT, as does a missing offset.
\<close>

definition excel_epoch :: rat where
  "excel_epoch = 25569"

definition to_datetime :: "(rat \<Rightarrow> bool) \<Rightarrow> cell \<Rightarrow> cell" where
  "to_datetime fits c =
     (case c of
        CNum d \<Rightarrow> (if fits (d - excel_epoch) then CDate (d - excel_epoch) else CNone)
      | _ \<Rightarrow> CNone)"

text \<open>
  The calendar date (year, month, day) of a day number counted from 1970-01-01, in the
  proleptic Gregorian calendar that pandas uses: the years are counted from 1 March in
  eras of 400 years (146097 days).
\<close>

definition civil_from_days :: "int \<Rightarrow> int \<times> int \<times> int" where
  "civil_from_days n =
     (let z = n + 719468;
          era = z div 146097;
          doe = z mod 146097;
          yoe = (doe - doe div 1460 + doe div 36524 - doe div 146096) div 365;
          doy = doe - (365 * yoe + yoe div 4 - yoe div 100);
          mp = (5 * doy + 2) div 153;
          d = doy - (153 * mp + 2) div 5 + 1;
          m = (mp + 2) mod 12 + 1;
          y = yoe + era * 400 + (if m \<le> 2 then 1 else 0)
      in (y, m, d))"

definition month_order :: "string list" where
  "month_order =
     [''January'', ''February'', ''March'', ''April'', ''May'', ''June'',
      ''July'', ''August'', ''September'', ''October'', ''November'', ''December'']"

text \<open>\<^verbatim>\<open>.dt.year\<close> and \<^verbatim>\<open>.dt.month_name()\<close> on one cell.\<close>

definition dt_year :: "cell \<Rightarrow> cell" where
  "dt_year c =
     (case c of
        CDate t \<Rightarrow> CNum (of_int (fst (civil_from_days \<lfloor>t\<rfloor>)))
      | _ \<Rightarrow> CNone)"

definition dt_month_name :: "cell \<Rightarrow> cell" where
  "dt_month_name c =
     (case c of
        CDate t \<Rightarrow> CStr (month_order ! nat (fst (snd (civil_from_days \<lfloor>t\<rfloor>)) - 1))
      | _ \<Rightarrow> CNone)"

text \<open>\<^verbatim>\<open>pd.Categorical(values, categories=cats)\<close>: a value outside the categories is missing.\<close>

definition categorical :: "string list \<Rightarrow> cell \<Rightarrow> cell" where
  "categorical cats c = (if c \<in> set (map CStr cats) then c else CNone)"

text \<open>\<^verbatim>\<open>df.dropna(subset=names)\<close>: KeyError for a label the frame does not have.\<close>

definition dropna_subset :: "string list \<Rightarrow> frame \<Rightarrow> exn + frame" where
  "dropna_subset names df =
     (if list_all (\<lambda>name. positions (CStr name) (columns df) \<noteq> []) names then
        Inr (df\<lparr>rows :=
          filter (\<lambda>r. list_all (\<lambda>name.
                    list_all (\<lambda>i. cell_at r i \<noteq> CNone) (positions (CStr name) (columns df)))
                  names)
            (rows df)\<rparr>)
      else Inl KeyError)"

text \<open>
  A stage of the script goes on with a value, ends the run with \<^verbatim>\<open>st.stop()\<close> after
  showing messages, or raises.
\<close>

datatype 'a flow = Go 'a | Stop "event list" | Raise exn

definition seq :: "'a flow \<Rightarrow> ('a \<Rightarrow> 'b flow) \<Rightarrow> 'b flow" where
  "seq m f = (case m of Go x \<Rightarrow> f x | Stop ms \<Rightarrow> Stop ms | Raise e \<Rightarrow> Raise e)"

definition lift :: "exn + 'a \<Rightarrow> 'a flow" where
  "lift m = (case m of Inl e \<Rightarrow> Raise e | Inr x \<Rightarrow> Go x)"

text \<open>
  What the script leaves to pandas: how a text is read as a number, and which day
  numbers fit a timestamp.
\<close>

record library =
  parse_number :: "string \<Rightarrow> rat option"
  fits_timestamp :: "rat \<Rightarrow> bool"

text \<open>
  Lines 51-73 in their order: the two coercions come first (lines 51-52), the test for
  the column \<^verbatim>\<open>DT\<close> after them (line 55).
\<close>

definition clean :: "library \<Rightarrow> frame \<Rightarrow> frame flow" where
  "clean lib df0 =
     seq (lift (get_col df0 ''DT'')) (\<lambda>dt.
     let df1 = set_col df0 ''DT'' (map (to_numeric (parse_number lib)) dt) in
     seq (lift (get_col df1 ''USDAmt'')) (\<lambda>amt.
     let df2 = set_col df1 ''USDAmt'' (map (to_numeric (parse_number lib)) amt) in
     seq (if CStr ''DT'' \<in> set (columns df2)
          then seq (lift (get_col df2 ''DT'')) (\<lambda>dt'.
                 Go (set_col df2 ''Date'' (map (to_datetime (fits_timestamp lib)) dt')))
          else Stop [StError ''DT column not found in XLSB sheet.'']) (\<lambda>df3.
     seq (lift (dropna_subset [''Date'', ''USDAmt''] df3)) (\<lambda>df4.
     seq (lift (get_col df4 ''Date'')) (\<lambda>date.
     let df5 = set_col df4 ''Year'' (map dt_year date) in
     seq (lift (get_col df5 ''Date'')) (\<lambda>date'.
     let df6 = set_col df5 ''Month'' (map dt_month_name date') in
     seq (lift (get_col df6 ''Month'')) (\<lambda>mo.
     Go (set_col df6 ''Month'' (map (categorical month_order) mo)))))))))"

section \<open>Sidebar filters (lines 78-163)\<close>

text \<open>
  The state of the widgets in one run of the script. A check box is its value. A
  multi-select or select box holds what the user picked, or \<open>None\<close> when the user has
  not touched it, in which case Streamlit returns the default. A multi-select returns
  options only.
\<close>

record widgets =
  all_branches_selected :: bool
  branch_choice :: "cell list option"
  all_months_selected :: bool
  month_choice :: "cell list option"
  all_clients_selected :: bool
  client_choice :: "cell list option"
  all_tbms_selected :: bool
  tbm_choice :: "cell list option"
  quick_client_choice :: "cell option"
  quick_tbm_choice :: "cell option"

definition multiselect :: "cell list \<Rightarrow> cell list \<Rightarrow> cell list option \<Rightarrow> cell list" where
  "multiselect opts dflt choice =
     (case choice of None \<Rightarrow> dflt | Some xs \<Rightarrow> filter (\<lambda>x. x \<in> set opts) xs)"

definition selectbox :: "cell list \<Rightarrow> cell option \<Rightarrow> cell" where
  "selectbox opts choice =
     (case opts of
        [] \<Rightarrow> CNone
      | first # _ \<Rightarrow>
          (case choice of
             None \<Rightarrow> first
           | Some x \<Rightarrow> if x \<in> set opts then x else first))"

text \<open>
  \<^verbatim>\<open>sorted(series.dropna().unique())\<close>. Python orders numbers and orders strings (by
  code point, which is the order of their UTF-8 bytes), and raises TypeError when it
  has to compare one kind with another.
\<close>

definition dropna :: "cell list \<Rightarrow> cell list" where
  "dropna cs = filter (\<lambda>c. c \<noteq> CNone) cs"

definition unique :: "cell list \<Rightarrow> cell list" where
  "unique cs = rev (remdups (rev cs))"

fun is_num :: "cell \<Rightarrow> bool" where
  "is_num (CNum x) = True"
| "is_num c = False"

fun is_str :: "cell \<Rightarrow> bool" where
  "is_str (CStr s) = True"
| "is_str c = False"

fun is_date :: "cell \<Rightarrow> bool" where
  "is_date (CDate t) = True"
| "is_date c = False"

fun num_of :: "cell \<Rightarrow> rat" where
  "num_of (CNum x) = x"
| "num_of (CDate t) = t"
| "num_of c = 0"

fun str_of :: "cell \<Rightarrow> string" where
  "str_of (CStr s) = s"
| "str_of c = []"

definition sorted_py :: "cell list \<Rightarrow> exn + cell list" where
  "sorted_py cs =
     (if list_all is_str cs then Inr (map CStr (sort (map str_of cs)))
      else if list_all is_num cs then Inr (map CNum (sort (map num_of cs)))
      else if list_all is_date cs then Inr (map CDate (sort (map num_of cs)))
      else if length cs \<le> 1 then Inr cs
      else Inl TypeError)"

definition column_options :: "frame \<Rightarrow> string \<Rightarrow> exn + cell list" where
  "column_options df name =
     and_then (get_col df name) (\<lambda>c. sorted_py (unique (dropna c)))"

text \<open>Boolean masks and \<^verbatim>\<open>df[mask]\<close>.\<close>

definition isin :: "cell list \<Rightarrow> cell list \<Rightarrow> bool list" where
  "isin col sel = map (\<lambda>c. c \<in> set sel) col"

definition eq_mask :: "cell list \<Rightarrow> cell \<Rightarrow> bool list" where
  "eq_mask col v = map (\<lambda>c. c = v) col"

definition mask_and :: "bool list \<Rightarrow> bool list \<Rightarrow> bool list" where
  "mask_and m1 m2 = map (\<lambda>(a, b). a \<and> b) (zip m1 m2)"

definition select_rows :: "frame \<Rightarrow> bool list \<Rightarrow> frame" where
  "select_rows df keep = df\<lparr>rows := map snd (filter fst (zip keep (rows df)))\<rparr>"

text \<open>Line 81 and line 88.\<close>

definition branch_options :: "frame \<Rightarrow> exn + cell list" where
  "branch_options df = column_options df ''BranchName''"

definition branch_filter :: "frame \<Rightarrow> cell list \<Rightarrow> exn + frame" where
  "branch_filter df selected_branch' =
     and_then (get_col df ''BranchName'') (\<lambda>bn.
     Inr (select_rows df (isin bn selected_branch')))"

text \<open>Line 99: the client options are read from the branch-filtered frame.\<close>

definition client_options :: "frame \<Rightarrow> exn + cell list" where
  "client_options dbf = column_options dbf ''CustomerName''"

text \<open>Line 109: the TBM options are read from \<^verbatim>\<open>df\<close>, the whole cleaned frame.\<close>

definition tbm_options :: "frame \<Rightarrow> exn + cell list" where
  "tbm_options df = column_options df ''TBM''"

text \<open>
  Lines 108-117. Without a column \<^verbatim>\<open>TBM\<close>,
  \<^verbatim>\<open>df.get("TBM", pd.Series()).unique()\<close> is the empty array.
\<close>

definition tbm_selection :: "frame \<Rightarrow> widgets \<Rightarrow> exn + cell list" where
  "tbm_selection df w =
     (if CStr ''TBM'' \<in> set (columns df) then
        and_then (tbm_options df) (\<lambda>opts.
        Inr (multiselect opts (if all_tbms_selected w then opts else []) (tbm_choice w)))
      else Inr (unique []))"

text \<open>Lines 120-124: the three masks are built from left to right.\<close>

definition dashboard_filter ::
  "frame \<Rightarrow> cell list \<Rightarrow> cell list \<Rightarrow> cell list \<Rightarrow> exn + frame" where
  "dashboard_filter dbf selected_client' selected_month' selected_tbm' =
     and_then (get_col dbf ''CustomerName'') (\<lambda>cn.
     and_then (get_col dbf ''Month'') (\<lambda>mo.
     and_then (get_col dbf ''TBM'') (\<lambda>tb.
     Inr (select_rows dbf
       (mask_and (mask_and (isin cn selected_client') (isin mo selected_month'))
          (isin tb selected_tbm'))))))"

text \<open>Lines 139-146.\<close>

definition quick_tbm_selection :: "frame \<Rightarrow> widgets \<Rightarrow> exn + cell" where
  "quick_tbm_selection df w =
     (if CStr ''TBM'' \<in> set (columns df) then
        and_then (column_options df ''TBM'') (\<lambda>all_tbms_full.
        Inr (selectbox (CStr ''All TBMs'' # all_tbms_full) (quick_tbm_choice w)))
      else Inr (CStr ''All TBMs''))"

text \<open>Lines 151-163.\<close>

definition quick_filter ::
  "frame \<Rightarrow> cell \<Rightarrow> cell \<Rightarrow> cell list \<Rightarrow> cell list \<Rightarrow> exn + frame" where
  "quick_filter df quick_client quick_tbm selected_branch' selected_month' =
     and_then (if quick_client = CStr ''All Clients'' then Inr df
               else and_then (get_col df ''CustomerName'') (\<lambda>cn.
                    Inr (select_rows df (eq_mask cn quick_client)))) (\<lambda>q1.
     and_then (if quick_tbm = CStr ''All TBMs'' then Inr q1
               else and_then (get_col q1 ''TBM'') (\<lambda>tb.
                    Inr (select_rows q1 (eq_mask tb quick_tbm)))) (\<lambda>q2.
     and_then (get_col q2 ''BranchName'') (\<lambda>bn.
     and_then (get_col q2 ''Month'') (\<lambda>mo.
     Inr (select_rows q2 (mask_and (isin bn selected_branch') (isin mo selected_month')))))))"

text \<open>What the filter section leaves behind for the rest of the script.\<close>

record views =
  selected_branch :: "cell list"
  df_branch_filtered :: frame
  selected_month :: "cell list"
  selected_client :: "cell list"
  selected_tbm :: "cell list"
  filtered_df_dashboard :: frame
  selected_quick_client :: cell
  selected_quick_tbm :: cell
  filtered_df_quick :: frame

text \<open>Lines 78-163 in their order.\<close>

definition filter_engine :: "frame \<Rightarrow> widgets \<Rightarrow> exn + views" where
  "filter_engine df w =
     and_then (branch_options df) (\<lambda>bopts.
     let sb = multiselect bopts (if all_branches_selected w then bopts else [])
                (branch_choice w) in
     and_then (branch_filter df sb) (\<lambda>dbf.
     let mopts = map CStr month_order;
         sm = multiselect mopts (if all_months_selected w then mopts else [])
                (month_choice w) in
     and_then (client_options dbf) (\<lambda>copts.
     let sc = multiselect copts (if all_clients_selected w then copts else [])
                (client_choice w) in
     and_then (tbm_selection df w) (\<lambda>st.
     and_then (dashboard_filter dbf sc sm st) (\<lambda>dash.
     and_then (column_options df ''CustomerName'') (\<lambda>all_clients_full.
     let qc = selectbox (CStr ''All Clients'' # all_clients_full) (quick_client_choice w) in
     and_then (quick_tbm_selection df w) (\<lambda>qt.
     and_then (quick_filter df qc qt sb sm) (\<lambda>quick.
     Inr \<lparr>selected_branch = sb, df_branch_filtered = dbf, selected_month = sm,
          selected_client = sc, selected_tbm = st, filtered_df_dashboard = dash,
          selected_quick_client = qc, selected_quick_tbm = qt,
          filtered_df_quick = quick\<rparr>))))))))"

section \<open>Dashboard (lines 168-183)\<close>

text \<open>
  \<^verbatim>\<open>int(df["Year"].max())\<close>: the maximum of a column with no value is NaN, and
  \<^verbatim>\<open>int\<close> of NaN raises ValueError.
\<close>

definition latest_year :: "frame \<Rightarrow> exn + int" where
  "latest_year df =
     and_then (get_col df ''Year'') (\<lambda>ys.
       case dropna ys of
         [] \<Rightarrow> Inl ValueError
       | c # cs \<Rightarrow> Inr \<lfloor>fold max (map num_of cs) (num_of c)\<rfloor>)"

text \<open>Division as Python has it, and line 178.\<close>

definition py_div :: "rat \<Rightarrow> nat \<Rightarrow> exn + rat" where
  "py_div x n = (if n = 0 then Inl ZeroDivisionError else Inr (x / of_nat n))"

definition avg_sale :: "rat \<Rightarrow> nat \<Rightarrow> exn + rat" where
  "avg_sale total_sales total_transactions =
     (if total_transactions > 0 then py_div total_sales total_transactions else Inr 0)"

text \<open>Lines 176-183: the three metrics over the quick view.\<close>

definition kpis :: "frame \<Rightarrow> exn + event list" where
  "kpis quick =
     and_then (get_col quick ''USDAmt'') (\<lambda>amt.
     let total_sales = sum_list (map num_of amt);
         total_transactions = length (rows quick) in
     and_then (avg_sale total_sales total_transactions) (\<lambda>avg.
     Inr [StMetric ''Total Sales'' total_sales,
          StMetric ''Transactions'' (of_nat total_transactions),
          StMetric ''Avg Sale Value'' avg]))"

text \<open>
  How a run ends: \<open>Rendered\<close> when the script reaches the end of the part modelled
  here (the charts and tables after the metrics are not modelled), \<open>Stopped\<close> by
  \<^verbatim>\<open>st.stop()\<close>, or \<open>Raised\<close> by an exception that nothing catches.
\<close>

datatype outcome = Rendered | Stopped | Raised exn

text \<open>
  Lines 168-183. The title's pictograph is left out. The heading of line 170 is an
  f-string with no placeholder; \<^verbatim>\<open>latest_year\<close> is computed on the line before and
  not read again.
\<close>

definition render :: "frame \<Rightarrow> frame \<Rightarrow> event list \<times> outcome" where
  "render df quick =
     (case latest_year df of
        Inl e \<Rightarrow> ([StTitle ''Sales Dashboard''], Raised e)
      | Inr year \<Rightarrow>
          (let page = [StTitle ''Sales Dashboard'', StSubheader ''Data Overview for 2025''] in
           if df_empty quick then
             (page @ [StError ''No data available for the selected filters or quick view.''],
              Rendered)
           else
             (case kpis quick of
                Inl e \<Rightarrow> (page, Raised e)
              | Inr metrics \<Rightarrow> (page @ metrics, Rendered))))"

section \<open>The script\<close>

text \<open>
  One run of the script: the upload (\<open>None\<close> when no file is uploaded) and the state of
  the widgets give the messages shown and how the run ends.
\<close>

definition run ::
  "library \<Rightarrow> xlsb_file option \<Rightarrow> widgets \<Rightarrow> event list \<times> outcome" where
  "run lib upload w =
     (case upload of
        None \<Rightarrow> ([StWarning ''Please upload an XLSB file to continue.''], Stopped)
      | Some file \<Rightarrow>
          (case load_xlsb file of (ev, raw) \<Rightarrow>
             if df_empty raw then (ev @ [StWarning ''No data loaded from XLSB.''], Stopped)
             else
               (case clean lib raw of
                  Raise e \<Rightarrow> (ev, Raised e)
                | Stop msgs \<Rightarrow> (ev @ msgs, Stopped)
                | Go df \<Rightarrow>
                    (case filter_engine df w of
                       Inl e \<Rightarrow> (ev, Raised e)
                     | Inr v \<Rightarrow>
                         (case render df (filtered_df_quick v) of
                            (ev', out) \<Rightarrow> (ev @ ev', out))))))"

section \<open>Reading a timestamp\<close>


section \<open>Sample inputs\<close>

text \<open>A workbook with no sheet \<^verbatim>\<open>DATA_BK\<close>, and the widgets as a first run finds them.\<close>

definition no_sheet_file :: xlsb_file where
  "no_sheet_file = Inr (\<lambda>name. Inl (External ''sheet not found''))"

definition untouched :: widgets where
  "untouched =
     \<lparr>all_branches_selected = True, branch_choice = None,
      all_months_selected = True, month_choice = None,
      all_clients_selected = True, client_choice = None,
      all_tbms_selected = True, tbm_choice = None,
      quick_client_choice = None, quick_tbm_choice = None\<rparr>"

text \<open>
  A cleaned frame with two transactions, (BranchA, ClientX, T1, 1 January 2025, 100) and
  (BranchB, ClientY, T2, 1 February 2025, 200), and widget states: every select-all box
  unticked; only BranchA picked.
\<close>

definition sample_df :: frame where
  "sample_df =
     \<lparr>columns = [CStr ''DT'', CStr ''USDAmt'', CStr ''BranchName'', CStr ''CustomerName'',
                 CStr ''TBM'', CStr ''Date'', CStr ''Year'', CStr ''Month''],
      rows = [[CNum 45658, CNum 100, CStr ''BranchA'', CStr ''ClientX'', CStr ''T1'',
               CDate 20089, CNum 2025, CStr ''January''],
              [CNum 45689, CNum 200, CStr ''BranchB'', CStr ''ClientY'', CStr ''T2'',
               CDate 20120, CNum 2025, CStr ''February'']]\<rparr>"

definition nothing_selected :: widgets where
  "nothing_selected =
     \<lparr>all_branches_selected = False, branch_choice = None,
      all_months_selected = False, month_choice = None,
      all_clients_selected = False, client_choice = None,
      all_tbms_selected = False, tbm_choice = None,
      quick_client_choice = None, quick_tbm_choice = None\<rparr>"

definition only_branch_a :: widgets where
  "only_branch_a = untouched\<lparr>branch_choice := Some [CStr ''BranchA'']\<rparr>"

definition sample_row_a :: "cell list" where
  "sample_row_a = [CNum 45658, CNum 100, CStr ''BranchA'', CStr ''ClientX'', CStr ''T1'',
               CDate 20089, CNum 2025, CStr ''January'']"

definition no_months :: widgets where
  "no_months = untouched\<lparr>all_months_selected := False\<rparr>"

text \<open>
  The branch-filtered sample for the selection BranchA, and the views of the sample with
  only BranchA picked.
\<close>

definition sample_branch_a :: frame where
  "sample_branch_a = sample_df\<lparr>rows := [sample_row_a]\<rparr>"

definition sample_views_a :: views where
  "sample_views_a =
     \<lparr>selected_branch = [CStr ''BranchA''],
      df_branch_filtered = sample_branch_a,
      selected_month = map CStr month_order,
      selected_client = [CStr ''ClientX''],
      selected_tbm = [CStr ''T1'', CStr ''T2''],
      filtered_df_dashboard = sample_branch_a,
      selected_quick_client = CStr ''All Clients'',
      selected_quick_tbm = CStr ''All TBMs'',
      filtered_df_quick = sample_branch_a\<rparr>"

text \<open>
  A pandas for the sample runs. It reads the text \<^verbatim>\<open>1\<close> as the number 1 and no other
  text as a number. It turns into a timestamp every day number whose count of
  nanoseconds fits a signed 64-bit integer, as every version does; the day numbers of
  the samples below are all of this kind.
\<close>

definition sample_library :: library where
  "sample_library =
     \<lparr>parse_number = (\<lambda>s. if s = ''1'' then Some 1 else None),
      fits_timestamp = (\<lambda>t. \<bar>t * 86400000000000\<bar> \<le> 9223372036854775807)\<rparr>"

text \<open>
  A sheet whose second transaction has a blank customer cell, the frame that cleaning
  makes of it, and its views when every select-all box is ticked.
\<close>

definition blank_client_raw :: frame where
  "blank_client_raw =
     \<lparr>columns = [CStr ''DT'', CStr ''USDAmt'', CStr ''BranchName'', CStr ''CustomerName'',
                 CStr ''TBM''],
      rows = [[CNum 45658, CNum 100, CStr ''BranchA'', CStr ''ClientX'', CStr ''T1''],
              [CNum 45689, CNum 200, CStr ''BranchB'', CNone, CStr ''T2'']]\<rparr>"

definition blank_client_row :: "cell list" where
  "blank_client_row = [CNum 45689, CNum 200, CStr ''BranchB'', CNone, CStr ''T2'',
               CDate 20120, CNum 2025, CStr ''February'']"

definition blank_client_df :: frame where
  "blank_client_df = sample_df\<lparr>rows := [sample_row_a, blank_client_row]\<rparr>"

definition blank_client_views :: views where
  "blank_client_views =
     \<lparr>selected_branch = [CStr ''BranchA'', CStr ''BranchB''],
      df_branch_filtered = blank_client_df,
      selected_month = map CStr month_order,
      selected_client = [CStr ''ClientX''],
      selected_tbm = [CStr ''T1'', CStr ''T2''],
      filtered_df_dashboard = sample_branch_a,
      selected_quick_client = CStr ''All Clients'',
      selected_quick_tbm = CStr ''All TBMs'',
      filtered_df_quick = blank_client_df\<rparr>"

text \<open>
  Sheets as pyxlsb reads them (the header row first): the two sample transactions; the
  same without the column DT; the same without the column TBM; and one whose only
  transaction has a text that is no number in DT.
\<close>

definition one_sheet :: "cell list list \<Rightarrow> xlsb_file" where
  "one_sheet rs =
     Inr (\<lambda>name. if name = ''DATA_BK'' then Inr (Inr rs) else Inl (External ''sheet not found''))"

definition sample_sheet :: "cell list list" where
  "sample_sheet =
     [[CStr ''DT'', CStr ''USDAmt'', CStr ''BranchName'', CStr ''CustomerName'', CStr ''TBM''],
      [CNum 45658, CNum 100, CStr ''BranchA'', CStr ''ClientX'', CStr ''T1''],
      [CNum 45689, CNum 200, CStr ''BranchB'', CStr ''ClientY'', CStr ''T2'']]"

definition no_dt_sheet :: "cell list list" where
  "no_dt_sheet =
     [[CStr ''USDAmt'', CStr ''BranchName'', CStr ''CustomerName'', CStr ''TBM''],
      [CNum 100, CStr ''BranchA'', CStr ''ClientX'', CStr ''T1'']]"

definition no_tbm_sheet :: "cell list list" where
  "no_tbm_sheet =
     [[CStr ''DT'', CStr ''USDAmt'', CStr ''BranchName'', CStr ''CustomerName''],
      [CNum 45658, CNum 100, CStr ''BranchA'', CStr ''ClientX'']]"

definition year_2024_sheet :: "cell list list" where
  "year_2024_sheet =
     [[CStr ''DT'', CStr ''USDAmt'', CStr ''BranchName'', CStr ''CustomerName'', CStr ''TBM''],
      [CNum 45292, CNum 100, CStr ''BranchA'', CStr ''ClientX'', CStr ''T1'']]"

definition bad_dates_sheet :: "cell list list" where
  "bad_dates_sheet =
     [[CStr ''DT'', CStr ''USDAmt'', CStr ''BranchName'', CStr ''CustomerName'', CStr ''TBM''],
      [CStr ''n/a'', CNum 100, CStr ''BranchA'', CStr ''ClientX'', CStr ''T1'']]"

text \<open>The frame that cleaning makes of the sheet whose transaction is of 1 January 2024.\<close>

definition year_2024_df :: frame where
  "year_2024_df =
     \<lparr>columns = [CStr ''DT'', CStr ''USDAmt'', CStr ''BranchName'', CStr ''CustomerName'',
                 CStr ''TBM'', CStr ''Date'', CStr ''Year'', CStr ''Month''],
      rows = [[CNum 45292, CNum 100, CStr ''BranchA'', CStr ''ClientX'', CStr ''T1'',
               CDate 19723, CNum 2024, CStr ''January'']]\<rparr>"



section \<open>Loader: properties\<close>

lemma and_then_Inr:
  "and_then m f = Inr y \<Longrightarrow> \<exists>x. m = Inr x \<and> f x = Inr y"
  by (cases m) (simp_all add: and_then_def)

lemma load_frame_causes:
  "file = Inl e \<or> (\<exists>wb. file = Inr wb \<and> wb ''DATA_BK'' = Inl e)
     \<or> (\<exists>wb. file = Inr wb \<and> wb ''DATA_BK'' = Inr (Inl e)) \<Longrightarrow> load_frame file = Inl e"
  by (auto simp: load_frame_def read_rows_def and_then_def)

lemma load_frame_no_rows:
  "read_rows file = Inr [] \<Longrightarrow> load_frame file = Inl IndexError"
  by (simp add: load_frame_def and_then_def DataFrame_def)

lemma load_xlsb_Inl:
  "load_frame file = Inl e \<Longrightarrow>
   load_xlsb file = ([StError (''Error loading XLSB file: '' @ exn_text e)], empty_frame)"
  by (simp add: load_xlsb_def)

lemma df_empty_empty_frame: "df_empty empty_frame"
  by (simp add: df_empty_def empty_frame_def)

text \<open>
  Claim C8. When \<^verbatim>\<open>open_workbook\<close> raises, when \<^verbatim>\<open>get_sheet('DATA_BK')\<close> raises,
  when reading the rows raises, or when any step of the body of \<^verbatim>\<open>load_xlsb\<close> raises
  (\<open>load_frame\<close> is that body), \<^verbatim>\<open>load_xlsb\<close> returns the empty frame and shows an error
  message; the run then ends by \<^verbatim>\<open>st.stop()\<close> after a warning, with no exception.
\<close>

theorem load_xlsb_catches_errors:
  assumes "file = Inl e \<or> (\<exists>wb. file = Inr wb \<and> wb ''DATA_BK'' = Inl e)
     \<or> (\<exists>wb. file = Inr wb \<and> wb ''DATA_BK'' = Inr (Inl e))
     \<or> load_frame file = Inl e"
  shows "load_xlsb file =
           ([StError (''Error loading XLSB file: '' @ exn_text e)], empty_frame)
         \<and> df_empty (snd (load_xlsb file))
         \<and> run lib (Some file) w =
           ([StError (''Error loading XLSB file: '' @ exn_text e),
             StWarning ''No data loaded from XLSB.''], Stopped)"
proof -
  from assms have "load_frame file = Inl e"
    using load_frame_causes by blast
  then have l: "load_xlsb file =
      ([StError (''Error loading XLSB file: '' @ exn_text e)], empty_frame)"
    by (rule load_xlsb_Inl)
  then show ?thesis
    by (simp add: run_def df_empty_empty_frame)
qed

theorem load_xlsb_catches_errors_witness:
  "load_xlsb no_sheet_file =
     ([StError ''Error loading XLSB file: sheet not found''], empty_frame)
   \<and> run sample_library (Some no_sheet_file) untouched =
     ([StError ''Error loading XLSB file: sheet not found'',
       StWarning ''No data loaded from XLSB.''], Stopped)"
  using load_xlsb_catches_errors
    [of no_sheet_file "External ''sheet not found''" sample_library untouched]
  by (simp add: no_sheet_file_def)

section \<open>Masks and column access: facts\<close>

lemma select_map: "map snd (filter fst (zip (map P xs) xs)) = filter P xs"
  by (induction xs) simp_all

lemma mask_and_map: "mask_and (map P xs) (map Q xs) = map (\<lambda>x. P x \<and> Q x) xs"
  by (induction xs) (simp_all add: mask_and_def)

lemma isin_map: "isin (map f xs) sel = map (\<lambda>x. f x \<in> set sel) xs"
  by (simp add: isin_def)

lemma eq_mask_map: "eq_mask (map f xs) v = map (\<lambda>x. f x = v) xs"
  by (simp add: eq_mask_def)

lemma select_rows_map: "select_rows df (map P (rows df)) = df\<lparr>rows := filter P (rows df)\<rparr>"
  by (simp add: select_rows_def select_map)

lemma select_rows_upd:
  "select_rows (df\<lparr>rows := rs\<rparr>) (map P rs) = df\<lparr>rows := filter P rs\<rparr>"
  by (simp add: select_rows_def select_map)

lemma get_col_Inr:
  "get_col df name = Inr c \<Longrightarrow> \<exists>i. col_index df name = Inr i \<and> c = map (\<lambda>r. cell_at r i) (rows df)"
  by (auto simp: get_col_def dest!: and_then_Inr)

lemma get_col_index:
  "col_index df name = Inr i \<Longrightarrow> get_col df name = Inr (map (\<lambda>r. cell_at r i) (rows df))"
  by (simp add: get_col_def and_then_def)

lemma get_col_error:
  "col_index df name = Inl e \<Longrightarrow> get_col df name = Inl e"
  by (simp add: get_col_def and_then_def)

lemma col_index_rows: "col_index (df\<lparr>rows := rs\<rparr>) name = col_index df name"
  by (simp add: col_index_def)

lemma positions_empty: "positions c cs = [] \<longleftrightarrow> c \<notin> set cs"
  by (auto simp: positions_def filter_empty_conv in_set_conv_nth)

lemma col_index_absent:
  "CStr name \<notin> set (columns df) \<Longrightarrow> col_index df name = Inl KeyError"
  by (simp add: col_index_def positions_empty [THEN iffD2])

lemma col_index_present:
  "col_index df name = Inr i \<Longrightarrow> CStr name \<in> set (columns df)"
  using positions_empty [of "CStr name" "columns df"]
  by (auto simp: col_index_def split: list.splits)

lemma branch_filter_rows:
  "col_index df ''BranchName'' = Inr i \<Longrightarrow>
   branch_filter df sb = Inr (df\<lparr>rows := filter (\<lambda>r. cell_at r i \<in> set sb) (rows df)\<rparr>)"
  by (simp add: branch_filter_def get_col_index and_then_def isin_map select_rows_map)

lemma branch_filter_Inr:
  "branch_filter df sb = Inr dbf \<Longrightarrow>
   \<exists>i. col_index df ''BranchName'' = Inr i \<and>
       dbf = df\<lparr>rows := filter (\<lambda>r. cell_at r i \<in> set sb) (rows df)\<rparr>"
  by (auto simp: branch_filter_def isin_map select_rows_map dest!: and_then_Inr get_col_Inr)

lemma dashboard_filter_rows:
  "col_index dbf ''CustomerName'' = Inr i \<Longrightarrow> col_index dbf ''Month'' = Inr j \<Longrightarrow>
   col_index dbf ''TBM'' = Inr k \<Longrightarrow>
   dashboard_filter dbf sc sm st =
     Inr (dbf\<lparr>rows := filter (\<lambda>r. (cell_at r i \<in> set sc \<and> cell_at r j \<in> set sm) \<and>
                                  cell_at r k \<in> set st) (rows dbf)\<rparr>)"
  by (simp add: dashboard_filter_def get_col_index and_then_def isin_map mask_and_map
      select_rows_map)

lemma dashboard_filter_Inr:
  "dashboard_filter dbf sc sm st = Inr dash \<Longrightarrow>
   \<exists>i j k. col_index dbf ''CustomerName'' = Inr i \<and> col_index dbf ''Month'' = Inr j \<and>
     col_index dbf ''TBM'' = Inr k \<and>
     dash = dbf\<lparr>rows := filter (\<lambda>r. (cell_at r i \<in> set sc \<and> cell_at r j \<in> set sm) \<and>
                                  cell_at r k \<in> set st) (rows dbf)\<rparr>"
  by (auto simp: dashboard_filter_def isin_map mask_and_map select_rows_map
      dest!: and_then_Inr get_col_Inr)

lemma dashboard_filter_no_tbm:
  "CStr ''TBM'' \<notin> set (columns dbf) \<Longrightarrow> \<exists>e. dashboard_filter dbf sc sm st = Inl e"
  by (cases "dashboard_filter dbf sc sm st")
     (auto dest!: dashboard_filter_Inr col_index_present)

lemma quick_filter_Inr:
  "quick_filter df qc qt sb sm = Inr quick \<Longrightarrow>
   \<exists>P. quick = df\<lparr>rows := filter P (rows df)\<rparr> \<and>
       (\<exists>i j. col_index df ''BranchName'' = Inr i \<and> col_index df ''Month'' = Inr j \<and>
          (\<forall>r. P r \<longrightarrow> cell_at r i \<in> set sb \<and> cell_at r j \<in> set sm))"
  unfolding quick_filter_def
  apply (drule and_then_Inr, clarify)
  apply (drule and_then_Inr, clarify)
  apply (drule and_then_Inr, clarify)
  apply (drule and_then_Inr, clarify)
  apply (auto simp: isin_map eq_mask_map mask_and_map select_rows_map select_rows_upd
      col_index_rows split: if_splits dest!: and_then_Inr get_col_Inr)
  done

section \<open>Filter section: views\<close>

lemma filter_engine_Inr:
  assumes "filter_engine df w = Inr v"
  shows "branch_filter df (selected_branch v) = Inr (df_branch_filtered v)
    \<and> dashboard_filter (df_branch_filtered v) (selected_client v) (selected_month v)
        (selected_tbm v) = Inr (filtered_df_dashboard v)
    \<and> quick_filter df (selected_quick_client v) (selected_quick_tbm v) (selected_branch v)
        (selected_month v) = Inr (filtered_df_quick v)"
  using assms unfolding filter_engine_def Let_def
  by (auto dest!: and_then_Inr)

lemma filter_engine_selections:
  assumes "filter_engine df w = Inr v"
  shows "(\<exists>bopts. branch_options df = Inr bopts \<and>
            selected_branch v = multiselect bopts (if all_branches_selected w then bopts else [])
              (branch_choice w))
    \<and> selected_month v = multiselect (map CStr month_order)
         (if all_months_selected w then map CStr month_order else []) (month_choice w)
    \<and> (\<exists>copts. client_options (df_branch_filtered v) = Inr copts \<and>
            selected_client v = multiselect copts (if all_clients_selected w then copts else [])
              (client_choice w))
    \<and> tbm_selection df w = Inr (selected_tbm v)"
  using assms unfolding filter_engine_def Let_def
  by (auto dest!: and_then_Inr)

lemma rows_subset_upd: "set (rows (df\<lparr>rows := filter P (rows df)\<rparr>)) \<subseteq> set (rows df)"
  by auto

text \<open>
  Claim C5. Whatever the widgets hold, when the filter section produces its views, every
  row of the dashboard view and every row of the quick view is a row of the frame the
  filters were given (and so is every row of the branch-filtered frame). The frame
  itself is an argument of the filters and is not changed by them.
\<close>

theorem views_are_subsets:
  assumes "filter_engine df w = Inr v"
  shows "set (rows (filtered_df_dashboard v)) \<subseteq> set (rows df)
       \<and> set (rows (filtered_df_quick v)) \<subseteq> set (rows df)
       \<and> set (rows (df_branch_filtered v)) \<subseteq> set (rows df)"
proof -
  from filter_engine_Inr [OF assms]
  have b: "branch_filter df (selected_branch v) = Inr (df_branch_filtered v)"
    and d: "dashboard_filter (df_branch_filtered v) (selected_client v) (selected_month v)
        (selected_tbm v) = Inr (filtered_df_dashboard v)"
    and q: "quick_filter df (selected_quick_client v) (selected_quick_tbm v) (selected_branch v)
        (selected_month v) = Inr (filtered_df_quick v)"
    by simp_all
  from branch_filter_Inr [OF b] have 1: "set (rows (df_branch_filtered v)) \<subseteq> set (rows df)"
    by auto
  from dashboard_filter_Inr [OF d]
  have 2: "set (rows (filtered_df_dashboard v)) \<subseteq> set (rows (df_branch_filtered v))"
    by auto
  from quick_filter_Inr [OF q] have 3: "set (rows (filtered_df_quick v)) \<subseteq> set (rows df)"
    by auto
  from 1 2 3 show ?thesis by blast
qed

lemma sample_only_branch_a:
  "map_sum id (\<lambda>v. (rows (filtered_df_dashboard v), rows (filtered_df_quick v)))
     (filter_engine sample_df only_branch_a) = Inr ([sample_row_a], [sample_row_a])"
  by code_simp

theorem views_are_subsets_witness:
  "\<exists>v. filter_engine sample_df only_branch_a = Inr v
     \<and> rows (filtered_df_dashboard v) = [sample_row_a]
     \<and> rows (filtered_df_quick v) = [sample_row_a]
     \<and> set (rows (filtered_df_dashboard v)) \<subseteq> set (rows sample_df)
     \<and> set (rows (filtered_df_quick v)) \<subseteq> set (rows sample_df)"
proof -
  from sample_only_branch_a obtain v where e: "filter_engine sample_df only_branch_a = Inr v"
    and r: "rows (filtered_df_dashboard v) = [sample_row_a]"
      "rows (filtered_df_quick v) = [sample_row_a]"
    by (cases "filter_engine sample_df only_branch_a") auto
  from views_are_subsets [OF e] e r show ?thesis
    by blast
qed

lemma filter_nothing: "(\<And>x. \<not> P x) \<Longrightarrow> filter P xs = []"
  by (induction xs) simp_all

lemma branch_filter_empty:
  "branch_filter df [] = Inr dbf \<Longrightarrow> rows dbf = []"
  by (auto dest!: branch_filter_Inr)

lemma dashboard_filter_empty_input:
  "dashboard_filter dbf sc sm st = Inr dash \<Longrightarrow> rows dbf = [] \<Longrightarrow> rows dash = []"
  by (auto dest!: dashboard_filter_Inr)

lemma dashboard_filter_empty_selection:
  "dashboard_filter dbf sc sm st = Inr dash \<Longrightarrow> sc = [] \<or> sm = [] \<or> st = [] \<Longrightarrow>
   rows dash = []"
  by (auto dest!: dashboard_filter_Inr)

lemma quick_filter_empty_selection:
  assumes "quick_filter df qc qt sb sm = Inr quick" and "sb = [] \<or> sm = []"
  shows "rows quick = []"
proof -
  from quick_filter_Inr [OF assms(1)] obtain P i j
    where q: "quick = df\<lparr>rows := filter P (rows df)\<rparr>"
      and p: "\<And>r. P r \<Longrightarrow> cell_at r i \<in> set sb \<and> cell_at r j \<in> set sm"
    by blast
  from p assms(2) have "\<And>r. \<not> P r"
    by auto
  then have "filter P (rows df) = []"
    by (rule filter_nothing)
  with q show ?thesis
    by simp
qed

text \<open>
  Claim C6. When the filter section produces its views: an empty Branch selection or an
  empty Month selection leaves no row in the dashboard view and none in the quick view;
  an empty Client selection or an empty TBM selection leaves no row in the dashboard
  view. An empty selection never stands for everything.
\<close>

theorem empty_selection_empty_view:
  assumes "filter_engine df w = Inr v"
  shows "(selected_branch v = [] \<longrightarrow>
            rows (filtered_df_dashboard v) = [] \<and> rows (filtered_df_quick v) = [])
       \<and> (selected_month v = [] \<longrightarrow>
            rows (filtered_df_dashboard v) = [] \<and> rows (filtered_df_quick v) = [])
       \<and> (selected_client v = [] \<longrightarrow> rows (filtered_df_dashboard v) = [])
       \<and> (selected_tbm v = [] \<longrightarrow> rows (filtered_df_dashboard v) = [])"
proof -
  from filter_engine_Inr [OF assms]
  have b: "branch_filter df (selected_branch v) = Inr (df_branch_filtered v)"
    and d: "dashboard_filter (df_branch_filtered v) (selected_client v) (selected_month v)
        (selected_tbm v) = Inr (filtered_df_dashboard v)"
    and q: "quick_filter df (selected_quick_client v) (selected_quick_tbm v) (selected_branch v)
        (selected_month v) = Inr (filtered_df_quick v)"
    by simp_all
  have 1: "rows (filtered_df_dashboard v) = []" if "selected_branch v = []"
    using that b d branch_filter_empty dashboard_filter_empty_input by metis
  have 2: "rows (filtered_df_quick v) = []" if "selected_branch v = [] \<or> selected_month v = []"
    using that q by (rule quick_filter_empty_selection [rotated])
  have 3: "rows (filtered_df_dashboard v) = []"
    if "selected_client v = [] \<or> selected_month v = [] \<or> selected_tbm v = []"
    using that d by (rule dashboard_filter_empty_selection [rotated])
  from 1 2 3 show ?thesis
    by blast
qed

lemma sample_nothing_selected:
  "map_sum id (\<lambda>v. (selected_branch v, selected_month v, selected_client v, selected_tbm v))
     (filter_engine sample_df nothing_selected) = Inr ([], [], [], [])"
  by code_simp

lemma sample_no_months:
  "map_sum id (\<lambda>v. (selected_month v, length (selected_branch v)))
     (filter_engine sample_df no_months) = Inr ([], 2)"
  by code_simp

theorem empty_selection_empty_view_witness:
  "(\<exists>v. filter_engine sample_df nothing_selected = Inr v
      \<and> selected_branch v = [] \<and> selected_month v = [] \<and> selected_client v = []
      \<and> selected_tbm v = []
      \<and> rows (filtered_df_dashboard v) = [] \<and> rows (filtered_df_quick v) = [])
   \<and> (\<exists>v. filter_engine sample_df no_months = Inr v
      \<and> selected_month v = [] \<and> length (selected_branch v) = 2
      \<and> rows (filtered_df_dashboard v) = [] \<and> rows (filtered_df_quick v) = [])"
proof -
  from sample_nothing_selected obtain v
    where e: "filter_engine sample_df nothing_selected = Inr v"
      and s: "selected_branch v = []" "selected_month v = []" "selected_client v = []"
        "selected_tbm v = []"
    by (cases "filter_engine sample_df nothing_selected") auto
  from sample_no_months obtain v'
    where e': "filter_engine sample_df no_months = Inr v'"
      and s': "selected_month v' = []" "length (selected_branch v') = 2"
    by (cases "filter_engine sample_df no_months") auto
  from empty_selection_empty_view [OF e] empty_selection_empty_view [OF e'] e s e' s'
  show ?thesis
    by blast
qed

section \<open>Option lists\<close>

lemma map_str_id: "list_all is_str cs \<Longrightarrow> map (CStr \<circ> str_of) cs = cs"
proof (induction cs)
  case Nil
  then show ?case by simp
next
  case (Cons c cs)
  then show ?case by (cases c) simp_all
qed

lemma map_num_id: "list_all is_num cs \<Longrightarrow> map (CNum \<circ> num_of) cs = cs"
proof (induction cs)
  case Nil
  then show ?case by simp
next
  case (Cons c cs)
  then show ?case by (cases c) simp_all
qed

lemma map_date_id: "list_all is_date cs \<Longrightarrow> map (CDate \<circ> num_of) cs = cs"
proof (induction cs)
  case Nil
  then show ?case by simp
next
  case (Cons c cs)
  then show ?case by (cases c) simp_all
qed

lemma set_sorted_image: "set (map f (sort (map g cs))) = set (map (f \<circ> g) cs)"
  by auto

lemma sorted_py_set: "sorted_py cs = Inr ys \<Longrightarrow> set ys = set cs"
  unfolding sorted_py_def
  by (auto simp only: set_sorted_image map_str_id map_num_id map_date_id
      split: if_splits)

lemma set_unique: "set (unique cs) = set cs"
  by (simp add: unique_def)

lemma set_dropna: "set (dropna cs) = set cs - {CNone}"
  by (auto simp: dropna_def)

lemma column_options_set:
  assumes "column_options df name = Inr opts"
  shows "\<exists>i. col_index df name = Inr i \<and>
           set opts = (\<lambda>r. cell_at r i) ` set (rows df) - {CNone}"
proof -
  from assms obtain c where g: "get_col df name = Inr c"
    and s: "sorted_py (unique (dropna c)) = Inr opts"
    unfolding column_options_def by (auto dest!: and_then_Inr)
  from get_col_Inr [OF g] obtain i where i: "col_index df name = Inr i"
    and c: "c = map (\<lambda>r. cell_at r i) (rows df)"
    by blast
  from sorted_py_set [OF s] have "set opts = set c - {CNone}"
    by (simp add: set_unique set_dropna)
  with i c show ?thesis
    by auto
qed

lemma sample_views_a_eval: "filter_engine sample_df only_branch_a = Inr sample_views_a"
  by code_simp

lemma blank_client_clean: "clean sample_library blank_client_raw = Go blank_client_df"
  by code_simp

lemma blank_client_views_eval: "filter_engine blank_client_df untouched = Inr blank_client_views"
  by code_simp

text \<open>
  Claim C3 as stated fails for the TBM list. In the sample with only BranchA picked, the
  TBM options (and the default TBM selection) are T1 and T2, while the only TBM value
  in the branch-filtered rows is T1.
\<close>

theorem tbm_options_counterexample:
  "filter_engine sample_df only_branch_a = Inr sample_views_a
   \<and> selected_branch sample_views_a = [CStr ''BranchA'']
   \<and> tbm_options sample_df = Inr [CStr ''T1'', CStr ''T2'']
   \<and> selected_tbm sample_views_a = [CStr ''T1'', CStr ''T2'']
   \<and> get_col (df_branch_filtered sample_views_a) ''TBM'' = Inr [CStr ''T1'']
   \<and> set [CStr ''T1'', CStr ''T2''] \<noteq> set (dropna [CStr ''T1''])"
proof -
  have 1: "tbm_options sample_df = Inr [CStr ''T1'', CStr ''T2'']"
    by code_simp
  have 2: "get_col (df_branch_filtered sample_views_a) ''TBM'' = Inr [CStr ''T1'']"
    by code_simp
  have 3: "set [CStr ''T1'', CStr ''T2''] \<noteq> set (dropna [CStr ''T1''])"
    by (simp add: dropna_def)
  from sample_views_a_eval 1 2 3 show ?thesis
    by (simp add: sample_views_a_def)
qed

text \<open>
  Claim C4 as stated fails on a cleaned frame with a blank customer cell. With every
  selection equal to its full option list, the branch-filtered frame has both rows and
  the dashboard view only the first: the options come from \<^verbatim>\<open>dropna()\<close>, so the
  blank cell is in no selection.
\<close>

theorem select_all_counterexample:
  "clean sample_library blank_client_raw = Go blank_client_df
   \<and> filter_engine blank_client_df untouched = Inr blank_client_views
   \<and> branch_options blank_client_df = Inr (selected_branch blank_client_views)
   \<and> selected_month blank_client_views = map CStr month_order
   \<and> client_options (df_branch_filtered blank_client_views)
       = Inr (selected_client blank_client_views)
   \<and> tbm_options blank_client_df = Inr (selected_tbm blank_client_views)
   \<and> rows (df_branch_filtered blank_client_views) = [sample_row_a, blank_client_row]
   \<and> rows (filtered_df_dashboard blank_client_views) = [sample_row_a]
   \<and> filtered_df_dashboard blank_client_views \<noteq> df_branch_filtered blank_client_views"
proof -
  have 1: "branch_options blank_client_df = Inr (selected_branch blank_client_views)"
    by code_simp
  have 2: "client_options (df_branch_filtered blank_client_views)
       = Inr (selected_client blank_client_views)"
    by code_simp
  have 3: "tbm_options blank_client_df = Inr (selected_tbm blank_client_views)"
    by code_simp
  have 4: "rows (df_branch_filtered blank_client_views) = [sample_row_a, blank_client_row]"
    "rows (filtered_df_dashboard blank_client_views) = [sample_row_a]"
    by (simp_all add: blank_client_views_def blank_client_df_def sample_branch_a_def)
  from 4 have 5: "filtered_df_dashboard blank_client_views \<noteq> df_branch_filtered blank_client_views"
    by auto
  have 6: "selected_month blank_client_views = map CStr month_order"
    by (simp add: blank_client_views_def)
  from blank_client_clean blank_client_views_eval 1 2 3 4 5 6 show ?thesis
    by simp
qed

lemma filter_engine_frames:
  assumes "filter_engine df w = Inr v"
  shows "\<exists>b i j k.
      col_index df ''BranchName'' = Inr b
    \<and> df_branch_filtered v = df\<lparr>rows := filter (\<lambda>r. cell_at r b \<in> set (selected_branch v)) (rows df)\<rparr>
    \<and> col_index df ''CustomerName'' = Inr i
    \<and> col_index df ''Month'' = Inr j
    \<and> col_index df ''TBM'' = Inr k
    \<and> filtered_df_dashboard v = (df_branch_filtered v)\<lparr>rows :=
        filter (\<lambda>r. (cell_at r i \<in> set (selected_client v) \<and> cell_at r j \<in> set (selected_month v))
                    \<and> cell_at r k \<in> set (selected_tbm v)) (rows (df_branch_filtered v))\<rparr>"
proof -
  from filter_engine_Inr [OF assms]
  have b: "branch_filter df (selected_branch v) = Inr (df_branch_filtered v)"
    and d: "dashboard_filter (df_branch_filtered v) (selected_client v) (selected_month v)
        (selected_tbm v) = Inr (filtered_df_dashboard v)"
    by simp_all
  from branch_filter_Inr [OF b] obtain bi where bi: "col_index df ''BranchName'' = Inr bi"
    and dbf: "df_branch_filtered v =
      df\<lparr>rows := filter (\<lambda>r. cell_at r bi \<in> set (selected_branch v)) (rows df)\<rparr>"
    by blast
  from dashboard_filter_Inr [OF d] obtain i j k
    where c: "col_index (df_branch_filtered v) ''CustomerName'' = Inr i"
      "col_index (df_branch_filtered v) ''Month'' = Inr j"
      "col_index (df_branch_filtered v) ''TBM'' = Inr k"
    and dash: "filtered_df_dashboard v = (df_branch_filtered v)\<lparr>rows :=
        filter (\<lambda>r. (cell_at r i \<in> set (selected_client v) \<and> cell_at r j \<in> set (selected_month v))
                    \<and> cell_at r k \<in> set (selected_tbm v)) (rows (df_branch_filtered v))\<rparr>"
    by blast
  from c dbf have c': "col_index df ''CustomerName'' = Inr i" "col_index df ''Month'' = Inr j"
    "col_index df ''TBM'' = Inr k"
    by (metis col_index_rows)+
  from bi dbf c' dash show ?thesis
    by blast
qed

lemma tbm_selection_present:
  assumes "tbm_selection df w = Inr st" and "CStr ''TBM'' \<in> set (columns df)"
  shows "\<exists>topts. tbm_options df = Inr topts \<and>
           st = multiselect topts (if all_tbms_selected w then topts else []) (tbm_choice w)"
  using assms unfolding tbm_selection_def
  by (auto dest!: and_then_Inr)

text \<open>
  Claim C3, amended. When the filter section produces its views, the Client option list
  (line 99) holds exactly the non-missing CustomerName values of the branch-filtered
  rows, and the TBM option list (line 109) holds exactly the non-missing TBM values of
  all rows of the cleaned frame; each selection is what the multi-select returns for
  these options.
\<close>

theorem option_lists:
  assumes "filter_engine df w = Inr v"
  shows "\<exists>copts topts i k.
      client_options (df_branch_filtered v) = Inr copts
    \<and> selected_client v =
        multiselect copts (if all_clients_selected w then copts else []) (client_choice w)
    \<and> col_index df ''CustomerName'' = Inr i
    \<and> set copts = (\<lambda>r. cell_at r i) ` set (rows (df_branch_filtered v)) - {CNone}
    \<and> tbm_options df = Inr topts
    \<and> selected_tbm v =
        multiselect topts (if all_tbms_selected w then topts else []) (tbm_choice w)
    \<and> col_index df ''TBM'' = Inr k
    \<and> set topts = (\<lambda>r. cell_at r k) ` set (rows df) - {CNone}"
proof -
  from filter_engine_frames [OF assms] obtain b i j k
    where dbf: "df_branch_filtered v =
        df\<lparr>rows := filter (\<lambda>r. cell_at r b \<in> set (selected_branch v)) (rows df)\<rparr>"
      and i: "col_index df ''CustomerName'' = Inr i"
      and k: "col_index df ''TBM'' = Inr k"
    by blast
  from filter_engine_selections [OF assms] obtain copts
    where co: "client_options (df_branch_filtered v) = Inr copts"
      and sc: "selected_client v =
        multiselect copts (if all_clients_selected w then copts else []) (client_choice w)"
      and ts: "tbm_selection df w = Inr (selected_tbm v)"
    by blast
  from col_index_present [OF k] have "CStr ''TBM'' \<in> set (columns df)" .
  from tbm_selection_present [OF ts this] obtain topts
    where to: "tbm_options df = Inr topts"
      and st: "selected_tbm v =
        multiselect topts (if all_tbms_selected w then topts else []) (tbm_choice w)"
    by blast
  from column_options_set [OF co [unfolded client_options_def]] obtain i'
    where i': "col_index (df_branch_filtered v) ''CustomerName'' = Inr i'"
      and cs: "set copts = (\<lambda>r. cell_at r i') ` set (rows (df_branch_filtered v)) - {CNone}"
    by blast
  from i' dbf i have "i' = i"
    by (metis col_index_rows sum.inject(2))
  from column_options_set [OF to [unfolded tbm_options_def]] k
  have tset: "set topts = (\<lambda>r. cell_at r k) ` set (rows df) - {CNone}"
    by auto
  from cs \<open>i' = i\<close>
  have cs': "set copts = (\<lambda>r. cell_at r i) ` set (rows (df_branch_filtered v)) - {CNone}"
    by simp
  show ?thesis
    apply (rule exI [where x = copts], rule exI [where x = topts])
    apply (rule exI [where x = i], rule exI [where x = k])
    using co sc i cs' to st k tset
    apply simp
    done
qed

theorem option_lists_witness:
  "\<exists>copts topts.
      filter_engine sample_df only_branch_a = Inr sample_views_a
    \<and> client_options (df_branch_filtered sample_views_a) = Inr copts
    \<and> set copts = {CStr ''ClientX''}
    \<and> tbm_options sample_df = Inr topts
    \<and> set topts = {CStr ''T1'', CStr ''T2''}"
proof -
  have c: "client_options (df_branch_filtered sample_views_a) = Inr [CStr ''ClientX'']"
    by code_simp
  have t: "tbm_options sample_df = Inr [CStr ''T1'', CStr ''T2'']"
    by code_simp
  from option_lists [OF sample_views_a_eval] obtain copts topts
    where o: "client_options (df_branch_filtered sample_views_a) = Inr copts"
      "tbm_options sample_df = Inr topts"
    by blast
  from o c t have "copts = [CStr ''ClientX'']" "topts = [CStr ''T1'', CStr ''T2'']"
    by simp_all
  then have "set copts = {CStr ''ClientX''}" "set topts = {CStr ''T1'', CStr ''T2''}"
    by simp_all
  with o sample_views_a_eval show ?thesis
    by blast
qed

section \<open>Select-all state\<close>

text \<open>
  Claim C4, amended. When the filter section produces its views and the Month, Client
  and TBM selections equal their full option lists (as sets; the Branch selection is
  free), the dashboard view holds exactly the rows of the branch-filtered frame whose
  CustomerName and TBM are not missing and whose Month is one of the twelve month
  names, under the same columns.
\<close>

theorem select_all_dashboard:
  assumes "filter_engine df w = Inr v"
    and "selected_month v = map CStr month_order"
    and "client_options (df_branch_filtered v) = Inr copts"
    and "set (selected_client v) = set copts"
    and "tbm_options df = Inr topts"
    and "set (selected_tbm v) = set topts"
  shows "\<exists>i j k.
      col_index df ''CustomerName'' = Inr i
    \<and> col_index df ''Month'' = Inr j
    \<and> col_index df ''TBM'' = Inr k
    \<and> rows (filtered_df_dashboard v) =
        filter (\<lambda>r. cell_at r i \<noteq> CNone \<and> cell_at r j \<in> set (map CStr month_order)
                    \<and> cell_at r k \<noteq> CNone)
          (rows (df_branch_filtered v))
    \<and> columns (filtered_df_dashboard v) = columns (df_branch_filtered v)"
proof -
  from filter_engine_frames [OF assms(1)] obtain b i j k
    where dbf: "df_branch_filtered v =
        df\<lparr>rows := filter (\<lambda>r. cell_at r b \<in> set (selected_branch v)) (rows df)\<rparr>"
      and i: "col_index df ''CustomerName'' = Inr i"
      and j: "col_index df ''Month'' = Inr j"
      and k: "col_index df ''TBM'' = Inr k"
      and dash: "filtered_df_dashboard v = (df_branch_filtered v)\<lparr>rows :=
        filter (\<lambda>r. (cell_at r i \<in> set (selected_client v) \<and> cell_at r j \<in> set (selected_month v))
                    \<and> cell_at r k \<in> set (selected_tbm v)) (rows (df_branch_filtered v))\<rparr>"
    by blast
  from dbf have sub: "set (rows (df_branch_filtered v)) \<subseteq> set (rows df)"
    by (metis rows_subset_upd)
  from dbf i have i': "col_index (df_branch_filtered v) ''CustomerName'' = Inr i"
    by (metis col_index_rows)
  from column_options_set [OF assms(3) [unfolded client_options_def]] i'
  have cs: "set copts = (\<lambda>r. cell_at r i) ` set (rows (df_branch_filtered v)) - {CNone}"
    by auto
  from column_options_set [OF assms(5) [unfolded tbm_options_def]] k
  have ts: "set topts = (\<lambda>r. cell_at r k) ` set (rows df) - {CNone}"
    by auto
  have "filter (\<lambda>r. (cell_at r i \<in> set (selected_client v) \<and> cell_at r j \<in> set (selected_month v))
                    \<and> cell_at r k \<in> set (selected_tbm v)) (rows (df_branch_filtered v))
      = filter (\<lambda>r. cell_at r i \<noteq> CNone \<and> cell_at r j \<in> set (map CStr month_order)
                    \<and> cell_at r k \<noteq> CNone) (rows (df_branch_filtered v))"
  proof (rule filter_cong [OF refl])
    fix r
    assume r: "r \<in> set (rows (df_branch_filtered v))"
    with sub have r': "r \<in> set (rows df)"
      by blast
    from r cs assms(4) have 1: "cell_at r i \<in> set (selected_client v) \<longleftrightarrow> cell_at r i \<noteq> CNone"
      by auto
    from r' ts assms(6) have 2: "cell_at r k \<in> set (selected_tbm v) \<longleftrightarrow> cell_at r k \<noteq> CNone"
      by auto
    from 1 2 assms(2)
    show "((cell_at r i \<in> set (selected_client v) \<and> cell_at r j \<in> set (selected_month v))
                    \<and> cell_at r k \<in> set (selected_tbm v))
        = (cell_at r i \<noteq> CNone \<and> cell_at r j \<in> set (map CStr month_order)
                    \<and> cell_at r k \<noteq> CNone)"
      by simp
  qed
  with dash have rows_eq: "rows (filtered_df_dashboard v) =
        filter (\<lambda>r. cell_at r i \<noteq> CNone \<and> cell_at r j \<in> set (map CStr month_order)
                    \<and> cell_at r k \<noteq> CNone)
          (rows (df_branch_filtered v))"
    by simp
  from dash have cols: "columns (filtered_df_dashboard v) = columns (df_branch_filtered v)"
    by simp
  show ?thesis
    apply (rule exI [where x = i], rule exI [where x = j], rule exI [where x = k])
    using i j k rows_eq cols
    apply simp
    done
qed

theorem select_all_dashboard_witness:
  "filter_engine blank_client_df untouched = Inr blank_client_views
   \<and> client_options (df_branch_filtered blank_client_views) = Inr [CStr ''ClientX'']
   \<and> set (selected_client blank_client_views) = set [CStr ''ClientX'']
   \<and> tbm_options blank_client_df = Inr [CStr ''T1'', CStr ''T2'']
   \<and> set (selected_tbm blank_client_views) = set [CStr ''T1'', CStr ''T2'']
   \<and> rows (filtered_df_dashboard blank_client_views) =
        filter (\<lambda>r. cell_at r 3 \<noteq> CNone \<and> cell_at r 7 \<in> set (map CStr month_order)
                    \<and> cell_at r 4 \<noteq> CNone)
          (rows (df_branch_filtered blank_client_views))
   \<and> rows (filtered_df_dashboard blank_client_views) = [sample_row_a]"
proof -
  have m: "selected_month blank_client_views = map CStr month_order"
    by (simp add: blank_client_views_def)
  have c: "client_options (df_branch_filtered blank_client_views) = Inr [CStr ''ClientX'']"
    by code_simp
  have sc: "set (selected_client blank_client_views) = set [CStr ''ClientX'']"
    by (simp add: blank_client_views_def)
  have t: "tbm_options blank_client_df = Inr [CStr ''T1'', CStr ''T2'']"
    by code_simp
  have st: "set (selected_tbm blank_client_views) = set [CStr ''T1'', CStr ''T2'']"
    by (simp add: blank_client_views_def)
  have i: "col_index blank_client_df ''CustomerName'' = Inr 3"
    by code_simp
  have j: "col_index blank_client_df ''Month'' = Inr 7"
    by code_simp
  have k: "col_index blank_client_df ''TBM'' = Inr 4"
    by code_simp
  have r: "rows (filtered_df_dashboard blank_client_views) = [sample_row_a]"
    by (simp add: blank_client_views_def sample_branch_a_def)
  from select_all_dashboard [OF blank_client_views_eval m c sc t st] i j k
  have "rows (filtered_df_dashboard blank_client_views) =
        filter (\<lambda>r. cell_at r 3 \<noteq> CNone \<and> cell_at r 7 \<in> set (map CStr month_order)
                    \<and> cell_at r 4 \<noteq> CNone)
          (rows (df_branch_filtered blank_client_views))"
    by auto
  with blank_client_views_eval c sc t st r show ?thesis
    by simp
qed

section \<open>The script: runs on sample sheets\<close>

lemma sample_run:
  "run sample_library (Some (one_sheet sample_sheet)) untouched =
     ([StTitle ''Sales Dashboard'', StSubheader ''Data Overview for 2025'',
       StMetric ''Total Sales'' 300, StMetric ''Transactions'' 2,
       StMetric ''Avg Sale Value'' 150], Rendered)"
  by code_simp

lemma set_col_columns: "set (columns df) \<subseteq> set (columns (set_col df name vals))"
  by (auto simp: set_col_def Let_def)

lemma get_col_present: "get_col df name = Inr c \<Longrightarrow> CStr name \<in> set (columns df)"
  by (auto dest!: get_col_Inr col_index_present)

lemma get_col_absent: "CStr name \<notin> set (columns df) \<Longrightarrow> get_col df name = Inl KeyError"
  by (simp add: get_col_error col_index_absent)

lemma clean_no_dt: "CStr ''DT'' \<notin> set (columns raw) \<Longrightarrow> clean lib raw = Raise KeyError"
  by (simp add: clean_def get_col_absent lift_def seq_def)

lemma seq_lift_no_stop:
  "(\<And>x. m = Inr x \<Longrightarrow> f x \<noteq> Stop ms) \<Longrightarrow> seq (lift m) f \<noteq> Stop ms"
  by (cases m) (simp_all add: seq_def lift_def)

lemma seq_no_stop:
  "m \<noteq> Stop ms \<Longrightarrow> (\<And>x. f x \<noteq> Stop ms) \<Longrightarrow> seq m f \<noteq> Stop ms"
  by (cases m) (simp_all add: seq_def)

lemma dt_kept:
  "get_col raw ''DT'' = Inr dt \<Longrightarrow>
   CStr ''DT'' \<in> set (columns (set_col (set_col raw ''DT'' v) ''USDAmt'' v'))"
  using get_col_present [of raw "''DT''" dt] set_col_columns [of raw "''DT''" v]
    set_col_columns [of "set_col raw ''DT'' v" "''USDAmt''" v']
  by blast

text \<open>
  The branch of line 57 (the message for a missing column DT and \<^verbatim>\<open>st.stop()\<close>) is
  never taken: where line 55 is reached, line 51 has found the column.
\<close>

lemma clean_never_stops: "clean lib raw \<noteq> Stop ms"
  unfolding clean_def Let_def
  apply (rule seq_lift_no_stop)
  apply (rule seq_lift_no_stop)
  apply (rule seq_no_stop)
   apply (simp add: dt_kept)
   apply (rule seq_lift_no_stop)
   apply simp
  apply (intro seq_lift_no_stop)
  apply simp
  done

text \<open>
  Claim C1 at a sheet with no column DT: the loader returns the frame, and line 51
  raises KeyError; the run ends with that exception and no message, not with the error
  message and \<^verbatim>\<open>st.stop()\<close> of lines 58-59.
\<close>

theorem missing_dt_raises:
  "load_xlsb (one_sheet no_dt_sheet) =
     ([], \<lparr>columns = [CStr ''USDAmt'', CStr ''BranchName'', CStr ''CustomerName'', CStr ''TBM''],
           rows = [[CNum 100, CStr ''BranchA'', CStr ''ClientX'', CStr ''T1'']]\<rparr>)
   \<and> clean sample_library (snd (load_xlsb (one_sheet no_dt_sheet))) = Raise KeyError
   \<and> run sample_library (Some (one_sheet no_dt_sheet)) untouched = ([], Raised KeyError)"
  by code_simp

lemma filter_engine_needs_tbm:
  "CStr ''TBM'' \<notin> set (columns df) \<Longrightarrow> \<exists>e. filter_engine df w = Inl e"
proof (cases "filter_engine df w")
  case (Inl e)
  then show ?thesis by blast
next
  case (Inr v)
  assume "CStr ''TBM'' \<notin> set (columns df)"
  with filter_engine_frames [OF Inr] col_index_present show ?thesis
    by blast
qed

lemma tbm_selection_fallback:
  "CStr ''TBM'' \<notin> set (columns df) \<Longrightarrow> tbm_selection df w = Inr []"
  by (simp add: tbm_selection_def unique_def)

text \<open>
  Claim C2 at a sheet with no column TBM: cleaning succeeds, the fallback of line 117
  gives the empty selection, and line 123 raises KeyError; the run ends with that
  exception and no dashboard view.
\<close>

theorem missing_tbm_raises:
  "clean sample_library (snd (load_xlsb (one_sheet no_tbm_sheet))) =
     Go \<lparr>columns = [CStr ''DT'', CStr ''USDAmt'', CStr ''BranchName'', CStr ''CustomerName'',
                    CStr ''Date'', CStr ''Year'', CStr ''Month''],
         rows = [[CNum 45658, CNum 100, CStr ''BranchA'', CStr ''ClientX'',
                  CDate 20089, CNum 2025, CStr ''January'']]\<rparr>
   \<and> filter_engine
        \<lparr>columns = [CStr ''DT'', CStr ''USDAmt'', CStr ''BranchName'', CStr ''CustomerName'',
                    CStr ''Date'', CStr ''Year'', CStr ''Month''],
         rows = [[CNum 45658, CNum 100, CStr ''BranchA'', CStr ''ClientX'',
                  CDate 20089, CNum 2025, CStr ''January'']]\<rparr> untouched = Inl KeyError
   \<and> run sample_library (Some (one_sheet no_tbm_sheet)) untouched = ([], Raised KeyError)"
  by code_simp








section \<open>Dashboard: properties\<close>




section \<open>Overview heading\<close>

lemma load_xlsb_events: "StSubheader h \<notin> set (fst (load_xlsb file))"
  by (cases "load_frame file") (simp_all add: load_xlsb_def)

lemma kpis_events: "kpis quick = Inr ms \<Longrightarrow> StSubheader h \<notin> set ms"
  by (auto simp: kpis_def Let_def dest!: and_then_Inr)

lemma render_subheader:
  "StSubheader h \<in> set (fst (render df quick)) \<Longrightarrow> h = ''Data Overview for 2025''"
  by (cases "latest_year df"; cases "kpis quick")
     (auto simp: render_def Let_def dest: kpis_events split: if_splits)

lemma render_heading:
  "latest_year df = Inr y \<Longrightarrow>
   \<exists>rest. fst (render df quick) =
     StTitle ''Sales Dashboard'' # StSubheader ''Data Overview for 2025'' # rest"
  by (cases "kpis quick") (simp_all add: render_def Let_def)

lemma render_ignores_year:
  "latest_year df = Inr y \<Longrightarrow> latest_year df' = Inr y' \<Longrightarrow> render df quick = render df' quick"
  by (simp add: render_def)

lemma run_subheader:
  assumes "StSubheader h \<in> set (fst (run lib upload w))"
  shows "h = ''Data Overview for 2025''"
proof (cases upload)
  case None
  with assms show ?thesis
    by (simp add: run_def)
next
  case (Some f)
  obtain ev raw where l: "load_xlsb f = (ev, raw)"
    by (cases "load_xlsb f")
  with load_xlsb_events [of _ f] have ev: "\<And>h. StSubheader h \<notin> set ev"
    by simp
  show ?thesis
  proof (cases "df_empty raw")
    case True
    with assms Some l ev show ?thesis
      by (simp add: run_def)
  next
    case False
    show ?thesis
    proof (cases "clean lib raw")
      case (Go df)
      show ?thesis
      proof (cases "filter_engine df w")
        case (Inl e)
        with assms Some l ev False Go show ?thesis
          by (simp add: run_def)
      next
        case (Inr v)
        with assms Some l ev False Go
        have "StSubheader h \<in> set (fst (render df (filtered_df_quick v)))"
          by (auto simp: run_def split: prod.splits)
        then show ?thesis
          by (rule render_subheader)
      qed
    next
      case (Stop ms)
      with clean_never_stops show ?thesis
        by blast
    next
      case (Raise e)
      with assms Some l ev False show ?thesis
        by (simp add: run_def)
    qed
  qed
qed

lemma year_2024_clean:
  "clean sample_library (snd (load_xlsb (one_sheet year_2024_sheet))) = Go year_2024_df"
  by code_simp

lemma year_2024_run:
  "run sample_library (Some (one_sheet year_2024_sheet)) untouched =
     ([StTitle ''Sales Dashboard'', StSubheader ''Data Overview for 2025'',
       StMetric ''Total Sales'' 100, StMetric ''Transactions'' 1,
       StMetric ''Avg Sale Value'' 100], Rendered)"
  by code_simp

text \<open>
  Claim C10. Every overview heading that a run shows is the text
  \<^verbatim>\<open>Data Overview for 2025\<close>, whatever the upload, the years in it and the widgets;
  wherever \<^verbatim>\<open>latest_year\<close> has a value, the page begins with the title and that
  heading, and what is rendered does not depend on the value: two frames with any two
  latest years render the same page for the same quick view.
\<close>

theorem overview_heading_constant:
  "(StSubheader h \<in> set (fst (run lib upload w)) \<longrightarrow> h = ''Data Overview for 2025'')
   \<and> (latest_year df = Inr y \<longrightarrow>
        (\<exists>rest. fst (render df quick) =
           StTitle ''Sales Dashboard'' # StSubheader ''Data Overview for 2025'' # rest))
   \<and> (latest_year df = Inr y \<and> latest_year df' = Inr y' \<longrightarrow>
        render df quick = render df' quick)"
  using run_subheader [of h lib upload w] render_heading [of df y quick]
    render_ignores_year [of df y df' y' quick]
  by blast

theorem overview_heading_constant_witness:
  "StSubheader ''Data Overview for 2025''
     \<in> set (fst (run sample_library (Some (one_sheet sample_sheet)) untouched))
   \<and> StSubheader ''Data Overview for 2025''
     \<in> set (fst (run sample_library (Some (one_sheet year_2024_sheet)) untouched))
   \<and> latest_year sample_df = Inr 2025
   \<and> latest_year year_2024_df = Inr 2024
   \<and> render sample_df sample_df = render year_2024_df sample_df
   \<and> fst (render year_2024_df sample_df) =
       [StTitle ''Sales Dashboard'', StSubheader ''Data Overview for 2025'',
        StMetric ''Total Sales'' 300, StMetric ''Transactions'' 2,
        StMetric ''Avg Sale Value'' 150]"
proof -
  have y: "latest_year sample_df = Inr 2025"
    by code_simp
  have y': "latest_year year_2024_df = Inr 2024"
    by code_simp
  have r: "fst (render sample_df sample_df) =
       [StTitle ''Sales Dashboard'', StSubheader ''Data Overview for 2025'',
        StMetric ''Total Sales'' 300, StMetric ''Transactions'' 2,
        StMetric ''Avg Sale Value'' 150]"
    by code_simp
  from overview_heading_constant
    [of "''Data Overview for 2025''" sample_library "Some (one_sheet sample_sheet)" untouched
      sample_df 2025 sample_df year_2024_df 2024] y y'
  have e: "render sample_df sample_df = render year_2024_df sample_df"
    by simp
  from sample_run year_2024_run y y' r e show ?thesis
    by simp
qed

text \<open>
  Where cleaning leaves no row (here: the only transaction has a text in DT), the
  maximum of the empty Year column is NaN and \<^verbatim>\<open>int\<close> raises ValueError at line 169:
  the run ends after the title, before the heading and before the message of line 173.
\<close>

lemma empty_cleaned_frame_raises:
  "run sample_library (Some (one_sheet bad_dates_sheet)) untouched =
     ([StTitle ''Sales Dashboard''], Raised ValueError)"
  by code_simp

section \<open>Date derivation: properties\<close>






lemma cell_at_snoc_other: "i < length xs \<Longrightarrow> cell_at (xs @ [v]) i = cell_at xs i"
  by (simp add: cell_at_def nth_append)

lemma cell_at_update_same: "j < length xs \<Longrightarrow> cell_at (xs[j := v]) j = v"
  by (simp add: cell_at_def)







lemma put_single: "j < length xs \<Longrightarrow> cell_at (put [j] v xs) j = v"
  by (simp add: put_def cell_at_update_same)








lemma set_col_length:
  "length vals = length (rows df) \<Longrightarrow> length (rows (set_col df name vals)) = length (rows df)"
  by (simp add: set_col_def Let_def)



























end
